theory Spec2Isabelle
  imports Main
begin

section \<open>Python values, dictionaries and exceptions\<close>

text \<open>
  The adapter \<^verbatim>\<open>fan_1c.py\<close> handles untyped values that come from the device as JSON
  scalars: \<^verbatim>\<open>None\<close>, booleans, integers and strings. Python's \<^verbatim>\<open>==\<close> and truth
  test are written out, because the code relies on both (\<^verbatim>\<open>prop["code"] == 0\<close>,
  \<^verbatim>\<open>self.data["mode"] == 1\<close>, \<^verbatim>\<open>"on" if self.data["power"] else "off"\<close>).
  In Python \<^verbatim>\<open>bool\<close> is a subtype of \<^verbatim>\<open>int\<close>: \<^verbatim>\<open>True == 1\<close> and
  \<^verbatim>\<open>False == 0\<close> hold, and the two hash alike, so they are the same dictionary key.
\<close>

datatype pyval = PyNone | PyBool bool | PyInt int | PyStr string

fun int_of_bool :: "bool \<Rightarrow> int" where
  "int_of_bool True = 1"
| "int_of_bool False = 0"

fun py_eq :: "pyval \<Rightarrow> pyval \<Rightarrow> bool" where
  "py_eq PyNone PyNone = True"
| "py_eq (PyBool a) (PyBool b) = (a = b)"
| "py_eq (PyBool a) (PyInt n) = (int_of_bool a = n)"
| "py_eq (PyInt m) (PyBool b) = (m = int_of_bool b)"
| "py_eq (PyInt m) (PyInt n) = (m = n)"
| "py_eq (PyStr s) (PyStr t) = (s = t)"
| "py_eq _ _ = False"

fun truthy :: "pyval \<Rightarrow> bool" where
  "truthy PyNone = False"
| "truthy (PyBool b) = b"
| "truthy (PyInt n) = (n \<noteq> 0)"
| "truthy (PyStr s) = (s \<noteq> [])"

text \<open>
  The exceptions the adapter can end with: its own \<^verbatim>\<open>FanException\<close> (with the
  formatted message), the \<^verbatim>\<open>KeyError\<close> of a dictionary subscript (with the missing
  key), and whatever the transport raises, which the adapter lets through unchanged.
\<close>

datatype error = FanException string | KeyError pyval | TransportError string

text \<open>
  A \<^verbatim>\<open>dict\<close> is a map on keys up to Python's key equality: a boolean key is the
  integer it equals. \<open>getitem\<close> is \<^verbatim>\<open>d[k]\<close>, which raises \<^verbatim>\<open>KeyError\<close> on a
  missing key; \<open>setitem\<close> is \<^verbatim>\<open>d[k] = v\<close>.
\<close>

type_synonym pydict = "pyval \<rightharpoonup> pyval"

fun py_key :: "pyval \<Rightarrow> pyval" where
  "py_key (PyBool b) = PyInt (int_of_bool b)"
| "py_key k = k"

definition getitem :: "pydict \<Rightarrow> pyval \<Rightarrow> error + pyval" where
  "getitem d k = (case d (py_key k) of None \<Rightarrow> Inl (KeyError k) | Some v \<Rightarrow> Inr v)"

definition setitem :: "pydict \<Rightarrow> pyval \<Rightarrow> pyval \<Rightarrow> pydict" where
  "setitem d k v = d(py_key k \<mapsto> v)"

text \<open>\<^verbatim>\<open>"%s" % n\<close> for an integer \<open>n\<close>: its decimal digits, with a leading minus sign.\<close>

fun str_nat :: "nat \<Rightarrow> string" where
  "str_nat n =
     (if n < 10 then [''0123456789'' ! n]
      else str_nat (n div 10) @ [''0123456789'' ! (n mod 10)])"

declare str_nat.simps [simp del]

definition str_int :: "int \<Rightarrow> string" where
  "str_int i = (if i < 0 then CHR ''-'' # str_nat (nat (- i)) else str_nat (nat i))"

section \<open>The property mapping table\<close>

text \<open>
  \<^verbatim>\<open>_MAPPING\<close> (lines 9-18): attribute name to the \<^verbatim>\<open>siid\<close>/\<^verbatim>\<open>piid\<close> pair, in
  the order of the source. (An Isabelle name cannot start with an underscore.)
\<close>

record siid_piid =
  siid :: int
  piid :: int

definition MAPPING :: "(string \<times> siid_piid) list" where
  "MAPPING =
     [(''power'', \<lparr>siid = 2, piid = 1\<rparr>),
      (''fan_level'', \<lparr>siid = 2, piid = 2\<rparr>),
      (''child_lock'', \<lparr>siid = 3, piid = 1\<rparr>),
      (''swing_mode'', \<lparr>siid = 2, piid = 3\<rparr>),
      (''power_off_time'', \<lparr>siid = 2, piid = 10\<rparr>),
      (''buzzer'', \<lparr>siid = 2, piid = 11\<rparr>),
      (''light'', \<lparr>siid = 2, piid = 12\<rparr>),
      (''mode'', \<lparr>siid = 2, piid = 7\<rparr>)]"

section \<open>The status container \<^verbatim>\<open>FanStatus1C\<close>\<close>

text \<open>\<^verbatim>\<open>miio.fan.OperationMode\<close>, the enumeration the accessor \<^verbatim>\<open>mode\<close> returns.\<close>

datatype OperationMode = Normal | Nature

record FanStatus1C =
  data :: pydict

text \<open>
  The accessors (lines 32-75). Each one subscripts \<^verbatim>\<open>self.data\<close>, so each one can
  raise \<^verbatim>\<open>KeyError\<close>. \<^verbatim>\<open>power\<close> and \<^verbatim>\<open>mode\<close> compute from the raw value; the
  others return the raw value as it is stored. (\<open>power\<close> is a constant of HOL, hence
  the suffix.)
\<close>

definition power_prop :: "FanStatus1C \<Rightarrow> error + string" where
  "power_prop self =
     (case getitem (data self) (PyStr ''power'') of
        Inl e \<Rightarrow> Inl e
      | Inr v \<Rightarrow> Inr (if truthy v then ''on'' else ''off''))"

definition is_on :: "FanStatus1C \<Rightarrow> error + pyval" where
  "is_on self = getitem (data self) (PyStr ''power'')"

definition mode :: "FanStatus1C \<Rightarrow> error + OperationMode" where
  "mode self =
     (case getitem (data self) (PyStr ''mode'') of
        Inl e \<Rightarrow> Inl e
      | Inr v \<Rightarrow> Inr (if py_eq v (PyInt 1) then Nature else Normal))"

definition speed :: "FanStatus1C \<Rightarrow> error + pyval" where
  "speed self = getitem (data self) (PyStr ''fan_level'')"

definition oscillate :: "FanStatus1C \<Rightarrow> error + pyval" where
  "oscillate self = getitem (data self) (PyStr ''swing_mode'')"

definition delay_off_countdown :: "FanStatus1C \<Rightarrow> error + pyval" where
  "delay_off_countdown self = getitem (data self) (PyStr ''power_off_time'')"

definition led :: "FanStatus1C \<Rightarrow> error + pyval" where
  "led self = getitem (data self) (PyStr ''light'')"

definition buzzer :: "FanStatus1C \<Rightarrow> error + pyval" where
  "buzzer self = getitem (data self) (PyStr ''buzzer'')"

definition child_lock :: "FanStatus1C \<Rightarrow> error + pyval" where
  "child_lock self = getitem (data self) (PyStr ''child_lock'')"

section \<open>The device \<^verbatim>\<open>Fan1C\<close> and its transport\<close>

text \<open>
  \<^verbatim>\<open>Fan1C\<close> extends \<^verbatim>\<open>miio.miot_device.MiotDevice\<close>, which belongs to the miio
  library and does the exchange with the fan. Its two entry points the adapter calls,
  \<^verbatim>\<open>get_properties_for_mapping()\<close> and \<^verbatim>\<open>set_property(name, value)\<close>, are parameters
  of the model: a handler takes the state of the link to the fan and the mapping
  table, and returns the reply (or the message of the error it raises) and the new
  state. Every call through either entry point is appended to the trace \<open>calls\<close>,
  which is how the theorems count transport calls.
\<close>

datatype call = GetPropertiesForMapping | SetProperty string pyval

record ('d, 'a) MiotDevice =
  mapping :: "(string \<times> siid_piid) list"
  ip :: "string option"
  token :: "string option"
  start_id :: int
  debug :: int
  lazy_discover :: bool
  link :: 'd
  get_properties_handler ::
    "'d \<Rightarrow> (string \<times> siid_piid) list \<Rightarrow> (string + pydict list) \<times> 'd"
  set_property_handler ::
    "'d \<Rightarrow> (string \<times> siid_piid) list \<Rightarrow> string \<Rightarrow> pyval \<Rightarrow> (string + 'a) \<times> 'd"
  calls :: "call list"

definition get_properties_for_mapping ::
  "('d, 'a) MiotDevice \<Rightarrow> (error + pydict list) \<times> ('d, 'a) MiotDevice" where
  "get_properties_for_mapping self =
     (case get_properties_handler self (link self) (mapping self) of
        (r, l) \<Rightarrow>
          (case r of Inl e \<Rightarrow> Inl (TransportError e) | Inr props \<Rightarrow> Inr props,
           self\<lparr>link := l, calls := calls self @ [GetPropertiesForMapping]\<rparr>))"

definition set_property ::
  "('d, 'a) MiotDevice \<Rightarrow> string \<Rightarrow> pyval \<Rightarrow> (error + 'a) \<times> ('d, 'a) MiotDevice" where
  "set_property self name v =
     (case set_property_handler self (link self) (mapping self) name v of
        (r, l) \<Rightarrow>
          (case r of Inl e \<Rightarrow> Inl (TransportError e) | Inr ack \<Rightarrow> Inr ack,
           self\<lparr>link := l, calls := calls self @ [SetProperty name v]\<rparr>))"

text \<open>
  \<^verbatim>\<open>Fan1C.__init__\<close> (lines 105-113) hands \<^verbatim>\<open>_MAPPING\<close> and its five arguments to
  the constructor of the base class. The link and the two handlers stand for the
  library underneath.
\<close>

definition Fan1C_init ::
  "string option \<Rightarrow> string option \<Rightarrow> int \<Rightarrow> int \<Rightarrow> bool \<Rightarrow> 'd \<Rightarrow>
   ('d \<Rightarrow> (string \<times> siid_piid) list \<Rightarrow> (string + pydict list) \<times> 'd) \<Rightarrow>
   ('d \<Rightarrow> (string \<times> siid_piid) list \<Rightarrow> string \<Rightarrow> pyval \<Rightarrow> (string + 'a) \<times> 'd) \<Rightarrow>
   ('d, 'a) MiotDevice" where
  "Fan1C_init ip0 token0 start_id0 debug0 lazy_discover0 l g s =
     \<lparr>mapping = MAPPING, ip = ip0, token = token0, start_id = start_id0, debug = debug0,
      lazy_discover = lazy_discover0, link = l, get_properties_handler = g,
      set_property_handler = s, calls = []\<rparr>"

text \<open>
  \<^verbatim>\<open>Fan1C.status\<close> (lines 128-134). The loop body
  \<^verbatim>\<open>data[prop["did"]] = prop["value"] if prop["code"] == 0 else None\<close> evaluates the
  right-hand side first: \<^verbatim>\<open>prop["code"]\<close>, then \<^verbatim>\<open>prop["value"]\<close> only when the code
  equals 0, and after that the subscript \<^verbatim>\<open>prop["did"]\<close> of the target.
\<close>

fun status_loop :: "pydict list \<Rightarrow> pydict \<Rightarrow> error + pydict" where
  "status_loop [] d = Inr d"
| "status_loop (prop # props) d =
     (case getitem prop (PyStr ''code'') of
        Inl e \<Rightarrow> Inl e
      | Inr c \<Rightarrow>
          (case (if py_eq c (PyInt 0) then getitem prop (PyStr ''value'') else Inr PyNone) of
             Inl e \<Rightarrow> Inl e
           | Inr v \<Rightarrow>
               (case getitem prop (PyStr ''did'') of
                  Inl e \<Rightarrow> Inl e
                | Inr k \<Rightarrow> status_loop props (setitem d k v))))"

definition status ::
  "('d, 'a) MiotDevice \<Rightarrow> (error + FanStatus1C) \<times> ('d, 'a) MiotDevice" where
  "status self =
     (case get_properties_for_mapping self of
        (Inl e, self') \<Rightarrow> (Inl e, self')
      | (Inr props, self') \<Rightarrow>
          (case status_loop props Map.empty of
             Inl e \<Rightarrow> (Inl e, self')
           | Inr d \<Rightarrow> (Inr \<lparr>data = d\<rparr>, self')))"

text \<open>The setters (lines 136-201). A check that fails raises before the transport is called.\<close>

definition on :: "('d, 'a) MiotDevice \<Rightarrow> (error + 'a) \<times> ('d, 'a) MiotDevice" where
  "on self = set_property self ''power'' (PyBool True)"

definition off :: "('d, 'a) MiotDevice \<Rightarrow> (error + 'a) \<times> ('d, 'a) MiotDevice" where
  "off self = set_property self ''power'' (PyBool False)"

definition set_direct_speed ::
  "('d, 'a) MiotDevice \<Rightarrow> int \<Rightarrow> (error + 'a) \<times> ('d, 'a) MiotDevice" where
  "set_direct_speed self speed0 =
     (if speed0 \<notin> {1, 2, 3} then (Inl (FanException (''Invalid speed: '' @ str_int speed0)), self)
      else set_property self ''fan_level'' (PyInt speed0))"

definition set_oscillate ::
  "('d, 'a) MiotDevice \<Rightarrow> bool \<Rightarrow> (error + 'a) \<times> ('d, 'a) MiotDevice" where
  "set_oscillate self oscillate0 = set_property self ''swing_mode'' (PyBool oscillate0)"

definition set_buzzer ::
  "('d, 'a) MiotDevice \<Rightarrow> bool \<Rightarrow> (error + 'a) \<times> ('d, 'a) MiotDevice" where
  "set_buzzer self buzzer0 = set_property self ''buzzer'' (PyBool buzzer0)"

definition set_child_lock ::
  "('d, 'a) MiotDevice \<Rightarrow> bool \<Rightarrow> (error + 'a) \<times> ('d, 'a) MiotDevice" where
  "set_child_lock self lock = set_property self ''child_lock'' (PyBool lock)"

definition set_natural_mode ::
  "('d, 'a) MiotDevice \<Rightarrow> bool \<Rightarrow> (error + 'a) \<times> ('d, 'a) MiotDevice" where
  "set_natural_mode self natural = set_property self ''mode'' (PyInt (if natural then 1 else 0))"

definition delay_off ::
  "('d, 'a) MiotDevice \<Rightarrow> int \<Rightarrow> (error + 'a) \<times> ('d, 'a) MiotDevice" where
  "delay_off self seconds =
     (if seconds < 0
      then (Inl (FanException (''Invalid value for a delayed turn off: '' @ str_int seconds)), self)
      else set_property self ''power_off_time'' (PyInt seconds))"

section \<open>Concrete replies and a concrete fan\<close>

text \<open>
  Inputs for the concrete statements below. An entry of a reply is the dictionary the
  fan sends back for one property: its name under \<^verbatim>\<open>did\<close>, the status code under
  \<^verbatim>\<open>code\<close> and, when the property was read, the value under \<^verbatim>\<open>value\<close>.
  \<open>example_snapshot\<close> is the snapshot the first reply leads to.
  \<open>demo_fan\<close> is a constructed \<^verbatim>\<open>Fan1C\<close> whose link counts the messages sent and
  answers every query with the given reply and every write with \<^verbatim>\<open>"ok"\<close>.
\<close>

definition reply_entry :: "string \<Rightarrow> int \<Rightarrow> pyval \<Rightarrow> pydict" where
  "reply_entry name c v = [PyStr ''did'' \<mapsto> PyStr name, PyStr ''code'' \<mapsto> PyInt c, PyStr ''value'' \<mapsto> v]"

definition failed_entry :: "string \<Rightarrow> int \<Rightarrow> pydict" where
  "failed_entry name c = [PyStr ''did'' \<mapsto> PyStr name, PyStr ''code'' \<mapsto> PyInt c]"

definition example_reply :: "pydict list" where
  "example_reply =
     [reply_entry ''power'' 0 (PyInt 1),
      reply_entry ''mode'' 0 (PyInt 1),
      reply_entry ''fan_level'' 0 (PyInt 2),
      reply_entry ''swing_mode'' 0 (PyInt 0),
      reply_entry ''power_off_time'' 0 (PyInt 120),
      reply_entry ''light'' 0 (PyInt 1),
      reply_entry ''buzzer'' 0 (PyInt 0),
      reply_entry ''child_lock'' 0 (PyInt 1)]"


definition demo_fan :: "pydict list \<Rightarrow> (nat, pyval) MiotDevice" where
  "demo_fan reply =
     Fan1C_init None None 0 0 True 0
       (\<lambda>l m. (Inr reply, Suc l))
       (\<lambda>l m name v. (Inr (PyStr ''ok''), Suc l))"

definition partial_reply :: "pydict list" where
  "partial_reply =
     [reply_entry ''power'' 0 (PyInt 1),
      reply_entry ''mode'' 0 (PyInt 1),
      reply_entry ''fan_level'' 0 (PyInt 2),
      reply_entry ''swing_mode'' 0 (PyInt 0),
      reply_entry ''power_off_time'' 0 (PyInt 120),
      failed_entry ''light'' (- 4001),
      reply_entry ''buzzer'' 0 (PyInt 0),
      reply_entry ''child_lock'' 0 (PyInt 1)]"

definition failed_reply :: "pydict list" where
  "failed_reply =
     [failed_entry ''power'' (- 4001),
      failed_entry ''mode'' (- 4001),
      reply_entry ''fan_level'' 0 (PyInt 2),
      reply_entry ''swing_mode'' 0 (PyInt 0),
      reply_entry ''power_off_time'' 0 (PyInt 120),
      reply_entry ''light'' 0 (PyInt 1),
      reply_entry ''buzzer'' 0 (PyInt 0),
      reply_entry ''child_lock'' 0 (PyInt 1)]"

section \<open>Operation mode\<close>

lemma int_of_bool_one: "(int_of_bool b = 1) = b"
  by (cases b) simp_all

text \<open>
  C8. For every raw value stored under \<^verbatim>\<open>mode\<close>, the accessor \<^verbatim>\<open>mode\<close> returns
  \<open>Nature\<close> exactly when the value equals the integer 1 (Python's \<^verbatim>\<open>==\<close>), and
  \<open>Normal\<close> for every other value. For an integer \<open>n\<close> that is \<open>n = 1\<close>; \<^verbatim>\<open>None\<close>
  and every string give \<open>Normal\<close>; \<^verbatim>\<open>True\<close> is the integer 1 in Python.
\<close>

theorem mode_nature_iff:
  "data s (PyStr ''mode'') = Some v \<Longrightarrow>
     mode s = Inr (if py_eq v (PyInt 1) then Nature else Normal) \<and>
     (mode s = Inr Nature \<or> mode s = Inr Normal) \<and>
     (mode s = Inr Nature) = py_eq v (PyInt 1) \<and>
     (\<forall>n. v = PyInt n \<longrightarrow> (mode s = Inr Nature) = (n = 1)) \<and>
     (\<forall>b. v = PyBool b \<longrightarrow> (mode s = Inr Nature) = b) \<and>
     (v = PyNone \<longrightarrow> mode s = Inr Normal) \<and>
     (\<forall>t. v = PyStr t \<longrightarrow> mode s = Inr Normal)"
  by (simp add: mode_def getitem_def int_of_bool_one)

theorem mode_nature_iff_witness:
  "data \<lparr>data = [PyStr ''mode'' \<mapsto> PyInt 1]\<rparr> (PyStr ''mode'') = Some (PyInt 1) \<and>
   mode \<lparr>data = [PyStr ''mode'' \<mapsto> PyInt 1]\<rparr> = Inr Nature \<and>
   data \<lparr>data = [PyStr ''mode'' \<mapsto> PyInt 2]\<rparr> (PyStr ''mode'') = Some (PyInt 2) \<and>
   mode \<lparr>data = [PyStr ''mode'' \<mapsto> PyInt 2]\<rparr> = Inr Normal \<and>
   mode \<lparr>data = [PyStr ''mode'' \<mapsto> PyInt 0]\<rparr> = Inr Normal"
  using mode_nature_iff [of "\<lparr>data = [PyStr ''mode'' \<mapsto> PyInt 1]\<rparr>" "PyInt 1"]
    mode_nature_iff [of "\<lparr>data = [PyStr ''mode'' \<mapsto> PyInt 2]\<rparr>" "PyInt 2"]
    mode_nature_iff [of "\<lparr>data = [PyStr ''mode'' \<mapsto> PyInt 0]\<rparr>" "PyInt 0"]
  by simp

section \<open>The status query\<close>

lemma status_loop_total:
  "\<forall>p\<in>set props. \<exists>k c. p (PyStr ''did'') = Some k \<and> p (PyStr ''code'') = Some c \<and>
       (py_eq c (PyInt 0) \<longrightarrow> p (PyStr ''value'') \<noteq> None) \<Longrightarrow>
   \<exists>d'. status_loop props d = Inr d'"
proof (induction props arbitrary: d)
  case Nil
  then show ?case by simp
next
  case (Cons p props)
  then obtain k c where p: "p (PyStr ''did'') = Some k" "p (PyStr ''code'') = Some c"
    "py_eq c (PyInt 0) \<longrightarrow> p (PyStr ''value'') \<noteq> None"
    by auto
  from Cons have "\<exists>d'. status_loop props (setitem d k v) = Inr d'" for v
    by simp
  with p show ?case
    by (cases "py_eq c (PyInt 0)") (auto simp: getitem_def)
qed

lemma status_loop_frame:
  "status_loop qs d = Inr d' \<Longrightarrow>
   \<forall>q\<in>set qs. \<forall>k'. q (PyStr ''did'') = Some k' \<longrightarrow> py_key k' \<noteq> x \<Longrightarrow>
   d' x = d x"
proof (induction qs arbitrary: d)
  case Nil
  then show ?case by simp
next
  case (Cons q qs)
  then show ?case
    by (auto simp: getitem_def setitem_def split: option.splits if_splits sum.splits)
qed

lemma status_loop_entry:
  "status_loop (ps @ p # qs) d = Inr d' \<Longrightarrow>
   p (PyStr ''did'') = Some k \<Longrightarrow> p (PyStr ''code'') = Some c \<Longrightarrow>
   \<forall>q\<in>set qs. \<forall>k'. q (PyStr ''did'') = Some k' \<longrightarrow> py_key k' \<noteq> py_key k \<Longrightarrow>
   d' (py_key k) = (if py_eq c (PyInt 0) then p (PyStr ''value'') else Some PyNone)"
proof (induction ps arbitrary: d)
  case Nil
  then show ?case
    by (auto simp: getitem_def setitem_def split: option.splits if_splits sum.splits
        dest!: status_loop_frame [where x = "py_key k"])
next
  case (Cons a ps)
  then show ?case
    by (auto simp: getitem_def split: option.splits if_splits sum.splits)
qed



lemma demo_get:
  "get_properties_for_mapping (demo_fan r) = (Inr r, (demo_fan r)\<lparr>link := 1, calls := [GetPropertiesForMapping]\<rparr>)"
  by (simp add: get_properties_for_mapping_def demo_fan_def Fan1C_init_def)





text \<open>
  C4. Let the transport answer the status query with a reply in which every entry
  carries its name and its status code, and its value when the code is 0. Then the
  query raises nothing and returns a snapshot. In its raw map, an entry that no later
  entry of the reply repeats is stored under its name: with its reported value when
  its code is 0, with \<^verbatim>\<open>None\<close> when its code is not 0. When the reply names every
  property once, that holds for every entry of the reply.
\<close>

theorem status_partial_failure:
  assumes reply: "get_properties_for_mapping self = (Inr props, self')"
    and wf: "\<forall>p\<in>set props. \<exists>k c. p (PyStr ''did'') = Some k \<and> p (PyStr ''code'') = Some c \<and>
       (py_eq c (PyInt 0) \<longrightarrow> p (PyStr ''value'') \<noteq> None)"
  shows "\<exists>s. status self = (Inr s, self') \<and>
     (\<forall>ps p qs k c. props = ps @ p # qs \<longrightarrow>
        p (PyStr ''did'') = Some k \<longrightarrow> p (PyStr ''code'') = Some c \<longrightarrow>
        (\<forall>q\<in>set qs. \<forall>k'. q (PyStr ''did'') = Some k' \<longrightarrow> py_key k' \<noteq> py_key k) \<longrightarrow>
        data s (py_key k) = (if py_eq c (PyInt 0) then p (PyStr ''value'') else Some PyNone)) \<and>
     (distinct (map (\<lambda>p. map_option py_key (p (PyStr ''did''))) props) \<longrightarrow>
        (\<forall>p\<in>set props. \<forall>k c. p (PyStr ''did'') = Some k \<longrightarrow> p (PyStr ''code'') = Some c \<longrightarrow>
           data s (py_key k) = (if py_eq c (PyInt 0) then p (PyStr ''value'') else Some PyNone)))"
proof -
  obtain d where d: "status_loop props Map.empty = Inr d"
    using status_loop_total [OF wf] by blast
  have st: "status self = (Inr \<lparr>data = d\<rparr>, self')"
    using reply d by (simp add: status_def)
  have last: "d (py_key k) = (if py_eq c (PyInt 0) then p (PyStr ''value'') else Some PyNone)"
    if "props = ps @ p # qs" "p (PyStr ''did'') = Some k" "p (PyStr ''code'') = Some c"
      "\<forall>q\<in>set qs. \<forall>k'. q (PyStr ''did'') = Some k' \<longrightarrow> py_key k' \<noteq> py_key k"
    for ps p qs k c
    using status_loop_entry [of ps p qs Map.empty d k c] d that by simp
  have each: "d (py_key k) = (if py_eq c (PyInt 0) then p (PyStr ''value'') else Some PyNone)"
    if dist: "distinct (map (\<lambda>p. map_option py_key (p (PyStr ''did''))) props)"
      and p: "p \<in> set props" "p (PyStr ''did'') = Some k" "p (PyStr ''code'') = Some c"
    for p k c
  proof -
    obtain ps qs where split: "props = ps @ p # qs"
      using p(1) by (auto dest: split_list)
    have "\<forall>q\<in>set qs. \<forall>k'. q (PyStr ''did'') = Some k' \<longrightarrow> py_key k' \<noteq> py_key k"
      using dist p(2) unfolding split by force
    then show ?thesis
      using last [OF split p(2) p(3)] by simp
  qed
  show ?thesis
    using st last each by (intro exI [of _ "\<lparr>data = d\<rparr>"]) simp
qed

theorem status_partial_failure_witness:
  "get_properties_for_mapping (demo_fan partial_reply) =
     (Inr partial_reply, (demo_fan partial_reply)\<lparr>link := 1, calls := [GetPropertiesForMapping]\<rparr>) \<and>
   (\<exists>s. status (demo_fan partial_reply) =
       (Inr s, (demo_fan partial_reply)\<lparr>link := 1, calls := [GetPropertiesForMapping]\<rparr>) \<and>
     data s (PyStr ''light'') = Some PyNone \<and> led s = Inr PyNone \<and>
     data s (PyStr ''power'') = Some (PyInt 1) \<and>
     data s (PyStr ''mode'') = Some (PyInt 1) \<and>
     data s (PyStr ''fan_level'') = Some (PyInt 2) \<and>
     data s (PyStr ''swing_mode'') = Some (PyInt 0) \<and>
     data s (PyStr ''power_off_time'') = Some (PyInt 120) \<and>
     data s (PyStr ''buzzer'') = Some (PyInt 0) \<and>
     data s (PyStr ''child_lock'') = Some (PyInt 1))"
proof -
  let ?fan' = "(demo_fan partial_reply)\<lparr>link := 1, calls := [GetPropertiesForMapping]\<rparr>"
  have wf: "\<forall>p\<in>set partial_reply. \<exists>k c. p (PyStr ''did'') = Some k \<and>
      p (PyStr ''code'') = Some c \<and> (py_eq c (PyInt 0) \<longrightarrow> p (PyStr ''value'') \<noteq> None)"
    by (simp add: partial_reply_def reply_entry_def failed_entry_def)
  have dist: "distinct (map (\<lambda>p. map_option py_key (p (PyStr ''did''))) partial_reply)"
    by (simp add: partial_reply_def reply_entry_def failed_entry_def)
  from status_partial_failure [OF demo_get wf]
  obtain s where st: "status (demo_fan partial_reply) = (Inr s, ?fan')"
    and imp: "distinct (map (\<lambda>p. map_option py_key (p (PyStr ''did''))) partial_reply) \<longrightarrow>
        (\<forall>p\<in>set partial_reply. \<forall>k c. p (PyStr ''did'') = Some k \<longrightarrow> p (PyStr ''code'') = Some c \<longrightarrow>
           data s (py_key k) = (if py_eq c (PyInt 0) then p (PyStr ''value'') else Some PyNone))"
    by (elim exE conjE)
  have each: "data s (py_key k) = (if py_eq c (PyInt 0) then p (PyStr ''value'') else Some PyNone)"
    if "p \<in> set partial_reply" "p (PyStr ''did'') = Some k" "p (PyStr ''code'') = Some c" for p k c
    using imp [rule_format, OF dist that] .
  have ok: "data s (PyStr name) = Some v" if "reply_entry name 0 v \<in> set partial_reply" for name v
    using each [OF that, of "PyStr name" "PyInt 0"] by (simp add: reply_entry_def)
  have light: "data s (PyStr ''light'') = Some PyNone"
    using each [of "failed_entry ''light'' (- 4001)" "PyStr ''light''" "PyInt (- 4001)"]
    by (simp add: partial_reply_def) (simp add: failed_entry_def)
  have "led s = Inr PyNone"
    using light by (simp add: led_def getitem_def)
  moreover have "data s (PyStr ''power'') = Some (PyInt 1)" "data s (PyStr ''mode'') = Some (PyInt 1)"
    "data s (PyStr ''fan_level'') = Some (PyInt 2)" "data s (PyStr ''swing_mode'') = Some (PyInt 0)"
    "data s (PyStr ''power_off_time'') = Some (PyInt 120)" "data s (PyStr ''buzzer'') = Some (PyInt 0)"
    "data s (PyStr ''child_lock'') = Some (PyInt 1)"
    by (rule ok, simp add: partial_reply_def)+
  ultimately show ?thesis
    using st light demo_get [of partial_reply] by (intro conjI exI [of _ s])
qed

section \<open>The setters\<close>

lemma set_property_effect:
  "snd (set_property self name v) =
     self\<lparr>link := snd (set_property_handler self (link self) (mapping self) name v),
          calls := calls self @ [SetProperty name v]\<rparr>"
  by (simp add: set_property_def split: prod.splits)

lemma set_property_result:
  "fst (set_property self name v) =
     (case fst (set_property_handler self (link self) (mapping self) name v) of
        Inl e \<Rightarrow> Inl (TransportError e) | Inr ack \<Rightarrow> Inr ack)"
  by (simp add: set_property_def split: prod.splits)

lemma set_property_calls:
  "calls (snd (set_property self name v)) = calls self @ [SetProperty name v]"
  by (simp add: set_property_effect)

lemma set_property_not_own_error:
  "fst (set_property self name v) \<noteq> Inl (FanException msg)"
  "fst (set_property self name v) \<noteq> Inl (KeyError k)"
  by (simp_all add: set_property_result split: sum.splits)

lemma set_property_ack:
  "set_property_handler self (link self) (mapping self) name v = (Inr ack, l) \<Longrightarrow>
   fst (set_property self name v) = Inr ack"
  by (simp add: set_property_result)

lemma set_property_transport_error:
  "set_property_handler self (link self) (mapping self) name v = (Inl e, l) \<Longrightarrow>
   fst (set_property self name v) = Inl (TransportError e)"
  by (simp add: set_property_result)

text \<open>
  C2. For every integer \<open>level\<close>: when it is not 1, 2 or 3, \<^verbatim>\<open>set_direct_speed\<close>
  raises \<^verbatim>\<open>FanException\<close> and the transport sees no call; when it is 1, 2 or 3, the
  transport sees exactly one call, \<^verbatim>\<open>set_property("fan_level", level)\<close>, the adapter
  raises no error of its own, an acknowledgement of the transport is the result, and an
  error of the transport is handed up as it is.
\<close>

theorem set_direct_speed_validates:
  "(level \<notin> {1, 2, 3} \<longrightarrow>
      set_direct_speed self level =
        (Inl (FanException (''Invalid speed: '' @ str_int level)), self) \<and>
      calls (snd (set_direct_speed self level)) = calls self) \<and>
   (level \<in> {1, 2, 3} \<longrightarrow>
      calls (snd (set_direct_speed self level)) =
        calls self @ [SetProperty ''fan_level'' (PyInt level)] \<and>
      (\<forall>msg. fst (set_direct_speed self level) \<noteq> Inl (FanException msg)) \<and>
      (\<forall>k. fst (set_direct_speed self level) \<noteq> Inl (KeyError k)) \<and>
      (\<forall>ack l. set_property_handler self (link self) (mapping self) ''fan_level'' (PyInt level)
           = (Inr ack, l) \<longrightarrow> fst (set_direct_speed self level) = Inr ack) \<and>
      (\<forall>e l. set_property_handler self (link self) (mapping self) ''fan_level'' (PyInt level)
           = (Inl e, l) \<longrightarrow> fst (set_direct_speed self level) = Inl (TransportError e)))"
  by (simp add: set_direct_speed_def set_property_calls set_property_not_own_error
      set_property_ack set_property_transport_error)

lemma str_int_examples:
  "str_int 0 = ''0''" "str_int 4 = ''4''" "str_int (- 1) = ''-1''" "str_int (- 30) = ''-30''"
  by (simp_all add: str_int_def str_nat.simps)

lemma demo_set:
  "set_property_handler (demo_fan r) (link (demo_fan r)) (mapping (demo_fan r)) name v
     = (Inr (PyStr ''ok''), 1)"
  by (simp add: demo_fan_def Fan1C_init_def)

lemma demo_calls: "calls (demo_fan r) = []"
  by (simp add: demo_fan_def Fan1C_init_def)

theorem set_direct_speed_validates_witness:
  "set_direct_speed (demo_fan []) 0 = (Inl (FanException ''Invalid speed: 0''), demo_fan []) \<and>
   set_direct_speed (demo_fan []) 4 = (Inl (FanException ''Invalid speed: 4''), demo_fan []) \<and>
   set_direct_speed (demo_fan []) (- 1) = (Inl (FanException ''Invalid speed: -1''), demo_fan []) \<and>
   calls (snd (set_direct_speed (demo_fan []) 0)) = [] \<and>
   calls (snd (set_direct_speed (demo_fan []) 4)) = [] \<and>
   calls (snd (set_direct_speed (demo_fan []) (- 1))) = [] \<and>
   calls (snd (set_direct_speed (demo_fan []) 1)) = [SetProperty ''fan_level'' (PyInt 1)] \<and>
   calls (snd (set_direct_speed (demo_fan []) 2)) = [SetProperty ''fan_level'' (PyInt 2)] \<and>
   calls (snd (set_direct_speed (demo_fan []) 3)) = [SetProperty ''fan_level'' (PyInt 3)] \<and>
   fst (set_direct_speed (demo_fan []) 1) = Inr (PyStr ''ok'') \<and>
   fst (set_direct_speed (demo_fan []) 2) = Inr (PyStr ''ok'') \<and>
   fst (set_direct_speed (demo_fan []) 3) = Inr (PyStr ''ok'')"
  using set_direct_speed_validates [of 0 "demo_fan []"]
    set_direct_speed_validates [of 4 "demo_fan []"]
    set_direct_speed_validates [of "- 1" "demo_fan []"]
    set_direct_speed_validates [of 1 "demo_fan []"]
    set_direct_speed_validates [of 2 "demo_fan []"]
    set_direct_speed_validates [of 3 "demo_fan []"]
  by (simp add: str_int_examples demo_set demo_calls)

text \<open>
  C3. For every integer \<open>seconds\<close>: when it is negative, \<^verbatim>\<open>delay_off\<close> raises
  \<^verbatim>\<open>FanException\<close> and the transport sees no call; when it is 0 or more, the transport
  sees exactly one call, \<^verbatim>\<open>set_property("power_off_time", seconds)\<close>, the adapter
  raises no error of its own, an acknowledgement of the transport is the result, and an
  error of the transport is handed up as it is.
\<close>

theorem delay_off_validates:
  "(seconds < 0 \<longrightarrow>
      delay_off self seconds =
        (Inl (FanException (''Invalid value for a delayed turn off: '' @ str_int seconds)), self) \<and>
      calls (snd (delay_off self seconds)) = calls self) \<and>
   (0 \<le> seconds \<longrightarrow>
      calls (snd (delay_off self seconds)) =
        calls self @ [SetProperty ''power_off_time'' (PyInt seconds)] \<and>
      (\<forall>msg. fst (delay_off self seconds) \<noteq> Inl (FanException msg)) \<and>
      (\<forall>k. fst (delay_off self seconds) \<noteq> Inl (KeyError k)) \<and>
      (\<forall>ack l. set_property_handler self (link self) (mapping self) ''power_off_time''
           (PyInt seconds) = (Inr ack, l) \<longrightarrow> fst (delay_off self seconds) = Inr ack) \<and>
      (\<forall>e l. set_property_handler self (link self) (mapping self) ''power_off_time''
           (PyInt seconds) = (Inl e, l) \<longrightarrow>
         fst (delay_off self seconds) = Inl (TransportError e)))"
  by (simp add: delay_off_def set_property_calls set_property_not_own_error set_property_ack
      set_property_transport_error)

theorem delay_off_validates_witness:
  "delay_off (demo_fan []) (- 1) =
     (Inl (FanException ''Invalid value for a delayed turn off: -1''), demo_fan []) \<and>
   calls (snd (delay_off (demo_fan []) (- 1))) = [] \<and>
   calls (snd (delay_off (demo_fan []) (- 30))) = [] \<and>
   calls (snd (delay_off (demo_fan []) 0)) = [SetProperty ''power_off_time'' (PyInt 0)] \<and>
   fst (delay_off (demo_fan []) 0) = Inr (PyStr ''ok'') \<and>
   calls (snd (delay_off (demo_fan []) 120)) = [SetProperty ''power_off_time'' (PyInt 120)] \<and>
   fst (delay_off (demo_fan []) 120) = Inr (PyStr ''ok'')"
  using delay_off_validates [of "- 1" "demo_fan []"]
    delay_off_validates [of "- 30" "demo_fan []"]
    delay_off_validates [of 0 "demo_fan []"]
    delay_off_validates [of 120 "demo_fan []"]
  by (simp add: str_int_examples demo_set demo_calls)

text \<open>
  C5. \<^verbatim>\<open>set_natural_mode\<close> forwards to the transport, under the name \<^verbatim>\<open>mode\<close>,
  the integer 1 for the input \<^verbatim>\<open>True\<close> and the integer 0 for the input \<^verbatim>\<open>False\<close>,
  and returns what the transport answers.
\<close>

theorem set_natural_mode_encoding:
  "calls (snd (set_natural_mode self True)) = calls self @ [SetProperty ''mode'' (PyInt 1)] \<and>
   calls (snd (set_natural_mode self False)) = calls self @ [SetProperty ''mode'' (PyInt 0)] \<and>
   fst (set_natural_mode self natural) =
     (case fst (set_property_handler self (link self) (mapping self) ''mode''
                  (if natural then PyInt 1 else PyInt 0)) of
        Inl e \<Rightarrow> Inl (TransportError e) | Inr ack \<Rightarrow> Inr ack)"
  by (simp add: set_natural_mode_def set_property_calls set_property_result)

text \<open>
  C6. \<^verbatim>\<open>on\<close> issues exactly one transport call, the write of \<^verbatim>\<open>True\<close> to the
  property \<^verbatim>\<open>power\<close>; \<^verbatim>\<open>off\<close> issues exactly one, the write of \<^verbatim>\<open>False\<close> to
  \<^verbatim>\<open>power\<close>. Each returns what the transport answers.
\<close>

theorem power_on_off:
  "calls (snd (on self)) = calls self @ [SetProperty ''power'' (PyBool True)] \<and>
   calls (snd (off self)) = calls self @ [SetProperty ''power'' (PyBool False)] \<and>
   fst (on self) =
     (case fst (set_property_handler self (link self) (mapping self) ''power'' (PyBool True)) of
        Inl e \<Rightarrow> Inl (TransportError e) | Inr ack \<Rightarrow> Inr ack) \<and>
   fst (off self) =
     (case fst (set_property_handler self (link self) (mapping self) ''power'' (PyBool False)) of
        Inl e \<Rightarrow> Inl (TransportError e) | Inr ack \<Rightarrow> Inr ack)"
  by (simp add: on_def off_def set_property_calls set_property_result)

section \<open>Frame of the setters\<close>

text \<open>
  C7. Every setter (\<^verbatim>\<open>on\<close>, \<^verbatim>\<open>off\<close>, \<^verbatim>\<open>set_oscillate\<close>, \<^verbatim>\<open>set_buzzer\<close>,
  \<^verbatim>\<open>set_child_lock\<close>, \<^verbatim>\<open>set_natural_mode\<close>, and \<^verbatim>\<open>set_direct_speed\<close> and
  \<^verbatim>\<open>delay_off\<close> on an input that passes the check) leaves the device object as it
  was but for the transport's own part: the link state the write handler returns, and
  the trace, which grows by exactly one write and by no read. No field of the adapter
  changes, so nothing is kept from one call to the next.
\<close>

theorem setters_one_write:
  "snd (on self) =
     self\<lparr>link := snd (set_property_handler self (link self) (mapping self) ''power'' (PyBool True)),
          calls := calls self @ [SetProperty ''power'' (PyBool True)]\<rparr> \<and>
   snd (off self) =
     self\<lparr>link := snd (set_property_handler self (link self) (mapping self) ''power'' (PyBool False)),
          calls := calls self @ [SetProperty ''power'' (PyBool False)]\<rparr> \<and>
   snd (set_oscillate self b) =
     self\<lparr>link := snd (set_property_handler self (link self) (mapping self) ''swing_mode'' (PyBool b)),
          calls := calls self @ [SetProperty ''swing_mode'' (PyBool b)]\<rparr> \<and>
   snd (set_buzzer self b) =
     self\<lparr>link := snd (set_property_handler self (link self) (mapping self) ''buzzer'' (PyBool b)),
          calls := calls self @ [SetProperty ''buzzer'' (PyBool b)]\<rparr> \<and>
   snd (set_child_lock self b) =
     self\<lparr>link := snd (set_property_handler self (link self) (mapping self) ''child_lock'' (PyBool b)),
          calls := calls self @ [SetProperty ''child_lock'' (PyBool b)]\<rparr> \<and>
   snd (set_natural_mode self b) =
     self\<lparr>link := snd (set_property_handler self (link self) (mapping self) ''mode''
                      (PyInt (if b then 1 else 0))),
          calls := calls self @ [SetProperty ''mode'' (PyInt (if b then 1 else 0))]\<rparr> \<and>
   (level \<in> {1, 2, 3} \<longrightarrow>
      snd (set_direct_speed self level) =
        self\<lparr>link := snd (set_property_handler self (link self) (mapping self) ''fan_level''
                         (PyInt level)),
             calls := calls self @ [SetProperty ''fan_level'' (PyInt level)]\<rparr>) \<and>
   (0 \<le> seconds \<longrightarrow>
      snd (delay_off self seconds) =
        self\<lparr>link := snd (set_property_handler self (link self) (mapping self) ''power_off_time''
                         (PyInt seconds)),
             calls := calls self @ [SetProperty ''power_off_time'' (PyInt seconds)]\<rparr>)"
  by (simp add: on_def off_def set_oscillate_def set_buzzer_def set_child_lock_def
      set_natural_mode_def set_direct_speed_def delay_off_def set_property_effect)

theorem setters_one_write_witness:
  "calls (snd (on (demo_fan []))) = [SetProperty ''power'' (PyBool True)] \<and>
   calls (snd (off (demo_fan []))) = [SetProperty ''power'' (PyBool False)] \<and>
   calls (snd (set_oscillate (demo_fan []) True)) = [SetProperty ''swing_mode'' (PyBool True)] \<and>
   calls (snd (set_buzzer (demo_fan []) False)) = [SetProperty ''buzzer'' (PyBool False)] \<and>
   calls (snd (set_child_lock (demo_fan []) True)) = [SetProperty ''child_lock'' (PyBool True)] \<and>
   calls (snd (set_natural_mode (demo_fan []) True)) = [SetProperty ''mode'' (PyInt 1)] \<and>
   (2::int) \<in> {1, 2, 3} \<and>
   calls (snd (set_direct_speed (demo_fan []) 2)) = [SetProperty ''fan_level'' (PyInt 2)] \<and>
   (0::int) \<le> 60 \<and>
   calls (snd (delay_off (demo_fan []) 60)) = [SetProperty ''power_off_time'' (PyInt 60)] \<and>
   snd (on (demo_fan [])) = (demo_fan [])\<lparr>link := 1, calls := [SetProperty ''power'' (PyBool True)]\<rparr> \<and>
   calls (snd (set_buzzer (snd (on (demo_fan []))) True)) =
     [SetProperty ''power'' (PyBool True), SetProperty ''buzzer'' (PyBool True)]"
  using setters_one_write [of "demo_fan []" True 2 60]
    setters_one_write [of "demo_fan []" False 2 60]
    setters_one_write [of "snd (on (demo_fan []))" True 2 60]
  by (simp add: demo_set demo_calls)

section \<open>The mapping table covers every name\<close>

lemma accessors_on_empty:
  "power_prop \<lparr>data = Map.empty\<rparr> = Inl (KeyError (PyStr ''power''))"
  "is_on \<lparr>data = Map.empty\<rparr> = Inl (KeyError (PyStr ''power''))"
  "mode \<lparr>data = Map.empty\<rparr> = Inl (KeyError (PyStr ''mode''))"
  "speed \<lparr>data = Map.empty\<rparr> = Inl (KeyError (PyStr ''fan_level''))"
  "oscillate \<lparr>data = Map.empty\<rparr> = Inl (KeyError (PyStr ''swing_mode''))"
  "delay_off_countdown \<lparr>data = Map.empty\<rparr> = Inl (KeyError (PyStr ''power_off_time''))"
  "led \<lparr>data = Map.empty\<rparr> = Inl (KeyError (PyStr ''light''))"
  "buzzer \<lparr>data = Map.empty\<rparr> = Inl (KeyError (PyStr ''buzzer''))"
  "child_lock \<lparr>data = Map.empty\<rparr> = Inl (KeyError (PyStr ''child_lock''))"
  by (simp_all add: power_prop_def is_on_def mode_def speed_def oscillate_def
      delay_off_countdown_def led_def buzzer_def child_lock_def getitem_def)

lemma mapping_keys:
  "fst ` set MAPPING = {''power'', ''fan_level'', ''child_lock'', ''swing_mode'',
     ''power_off_time'', ''buzzer'', ''light'', ''mode''}"
  by (simp add: MAPPING_def)

lemma mapping_lookup:
  "map_of MAPPING ''power'' = Some \<lparr>siid = 2, piid = 1\<rparr>"
  "map_of MAPPING ''fan_level'' = Some \<lparr>siid = 2, piid = 2\<rparr>"
  "map_of MAPPING ''child_lock'' = Some \<lparr>siid = 3, piid = 1\<rparr>"
  "map_of MAPPING ''swing_mode'' = Some \<lparr>siid = 2, piid = 3\<rparr>"
  "map_of MAPPING ''power_off_time'' = Some \<lparr>siid = 2, piid = 10\<rparr>"
  "map_of MAPPING ''buzzer'' = Some \<lparr>siid = 2, piid = 11\<rparr>"
  "map_of MAPPING ''light'' = Some \<lparr>siid = 2, piid = 12\<rparr>"
  "map_of MAPPING ''mode'' = Some \<lparr>siid = 2, piid = 7\<rparr>"
  by (simp_all add: MAPPING_def)

lemma mapping_distinct: "distinct (map fst MAPPING)"
  by (simp add: MAPPING_def)

lemma accessors_on_full:
  assumes "PyStr ` fst ` set MAPPING \<subseteq> dom (data s)"
  shows "(\<exists>v. power_prop s = Inr v) \<and> (\<exists>v. is_on s = Inr v) \<and> (\<exists>v. mode s = Inr v) \<and>
     (\<exists>v. speed s = Inr v) \<and> (\<exists>v. oscillate s = Inr v) \<and>
     (\<exists>v. delay_off_countdown s = Inr v) \<and> (\<exists>v. led s = Inr v) \<and>
     (\<exists>v. buzzer s = Inr v) \<and> (\<exists>v. child_lock s = Inr v)"
proof -
  have "\<exists>v. data s (PyStr n) = Some v" if "n \<in> fst ` set MAPPING" for n
    using assms that by blast
  then have "\<exists>v. getitem (data s) (PyStr n) = Inr v" if "n \<in> fst ` set MAPPING" for n
    using that by (fastforce simp: getitem_def)
  then have g: "\<exists>v. getitem (data s) (PyStr ''power'') = Inr v"
    "\<exists>v. getitem (data s) (PyStr ''mode'') = Inr v"
    "\<exists>v. getitem (data s) (PyStr ''fan_level'') = Inr v"
    "\<exists>v. getitem (data s) (PyStr ''swing_mode'') = Inr v"
    "\<exists>v. getitem (data s) (PyStr ''power_off_time'') = Inr v"
    "\<exists>v. getitem (data s) (PyStr ''light'') = Inr v"
    "\<exists>v. getitem (data s) (PyStr ''buzzer'') = Inr v"
    "\<exists>v. getitem (data s) (PyStr ''child_lock'') = Inr v"
    by (simp_all add: mapping_keys)
  from g(1) have "\<exists>v. power_prop s = Inr v" by (auto simp: power_prop_def)
  moreover from g(2) have "\<exists>v. mode s = Inr v" by (auto simp: mode_def)
  ultimately show ?thesis
    using g by (simp add: is_on_def speed_def oscillate_def delay_off_countdown_def led_def
        buzzer_def child_lock_def)
qed

lemma setter_names:
  "set (calls (snd (on self))) \<subseteq>
     set (calls self) \<union> {SetProperty n v | n v. n \<in> fst ` set MAPPING}"
  "set (calls (snd (off self))) \<subseteq>
     set (calls self) \<union> {SetProperty n v | n v. n \<in> fst ` set MAPPING}"
  "set (calls (snd (set_direct_speed self level))) \<subseteq>
     set (calls self) \<union> {SetProperty n v | n v. n \<in> fst ` set MAPPING}"
  "set (calls (snd (set_oscillate self b))) \<subseteq>
     set (calls self) \<union> {SetProperty n v | n v. n \<in> fst ` set MAPPING}"
  "set (calls (snd (set_buzzer self b))) \<subseteq>
     set (calls self) \<union> {SetProperty n v | n v. n \<in> fst ` set MAPPING}"
  "set (calls (snd (set_child_lock self b))) \<subseteq>
     set (calls self) \<union> {SetProperty n v | n v. n \<in> fst ` set MAPPING}"
  "set (calls (snd (set_natural_mode self b))) \<subseteq>
     set (calls self) \<union> {SetProperty n v | n v. n \<in> fst ` set MAPPING}"
  "set (calls (snd (delay_off self seconds))) \<subseteq>
     set (calls self) \<union> {SetProperty n v | n v. n \<in> fst ` set MAPPING}"
  unfolding mapping_keys
  by (auto simp: on_def off_def set_oscillate_def set_buzzer_def set_child_lock_def
      set_natural_mode_def set_direct_speed_def delay_off_def set_property_calls)

lemma mapping_kept:
  "mapping (snd (on self)) = mapping self"
  "mapping (snd (off self)) = mapping self"
  "mapping (snd (set_direct_speed self level)) = mapping self"
  "mapping (snd (set_oscillate self b)) = mapping self"
  "mapping (snd (set_buzzer self b)) = mapping self"
  "mapping (snd (set_child_lock self b)) = mapping self"
  "mapping (snd (set_natural_mode self b)) = mapping self"
  "mapping (snd (delay_off self seconds)) = mapping self"
  by (simp_all add: on_def off_def set_oscillate_def set_buzzer_def set_child_lock_def
      set_natural_mode_def set_direct_speed_def delay_off_def set_property_effect)

lemma get_properties_effect:
  "snd (get_properties_for_mapping self) =
     self\<lparr>link := snd (get_properties_handler self (link self) (mapping self)),
          calls := calls self @ [GetPropertiesForMapping]\<rparr>"
  by (simp add: get_properties_for_mapping_def split: prod.splits)

lemma status_effect:
  "snd (status self) = snd (get_properties_for_mapping self)"
  by (simp add: status_def split: prod.splits sum.splits)

lemma status_kept:
  "mapping (snd (status self)) = mapping self"
  "calls (snd (status self)) = calls self @ [GetPropertiesForMapping]"
  by (simp_all add: status_effect get_properties_effect)

lemma init_mapping: "mapping (Fan1C_init i t sid dbg lz l g h) = MAPPING"
  by (simp add: Fan1C_init_def)

text \<open>
  C9. The constructor hands the table \<^verbatim>\<open>_MAPPING\<close> to the device, its keys are
  distinct, they are the eight names \<^verbatim>\<open>power\<close>, \<^verbatim>\<open>fan_level\<close>, \<^verbatim>\<open>child_lock\<close>,
  \<^verbatim>\<open>swing_mode\<close>, \<^verbatim>\<open>power_off_time\<close>, \<^verbatim>\<open>buzzer\<close>, \<^verbatim>\<open>light\<close> and \<^verbatim>\<open>mode\<close>,
  and each has its fixed pair of service and property identifier. Every accessor of the
  snapshot reads a key of the table (on the empty snapshot it fails with the
  \<^verbatim>\<open>KeyError\<close> of that key, and on a snapshot that holds the keys of the table none
  fails); every write a setter issues names a key of the table; the status query issues
  the one batched read for the whole table; and no operation changes the table.
\<close>

theorem mapping_covers_attribute_names:
  "mapping (Fan1C_init i t sid dbg lz l g h) = MAPPING \<and>
   distinct (map fst MAPPING) \<and>
   fst ` set MAPPING = {''power'', ''fan_level'', ''child_lock'', ''swing_mode'',
     ''power_off_time'', ''buzzer'', ''light'', ''mode''} \<and>
   map_of MAPPING ''power'' = Some \<lparr>siid = 2, piid = 1\<rparr> \<and>
   map_of MAPPING ''fan_level'' = Some \<lparr>siid = 2, piid = 2\<rparr> \<and>
   map_of MAPPING ''child_lock'' = Some \<lparr>siid = 3, piid = 1\<rparr> \<and>
   map_of MAPPING ''swing_mode'' = Some \<lparr>siid = 2, piid = 3\<rparr> \<and>
   map_of MAPPING ''power_off_time'' = Some \<lparr>siid = 2, piid = 10\<rparr> \<and>
   map_of MAPPING ''buzzer'' = Some \<lparr>siid = 2, piid = 11\<rparr> \<and>
   map_of MAPPING ''light'' = Some \<lparr>siid = 2, piid = 12\<rparr> \<and>
   map_of MAPPING ''mode'' = Some \<lparr>siid = 2, piid = 7\<rparr> \<and>
   power_prop \<lparr>data = Map.empty\<rparr> = Inl (KeyError (PyStr ''power'')) \<and>
   is_on \<lparr>data = Map.empty\<rparr> = Inl (KeyError (PyStr ''power'')) \<and>
   mode \<lparr>data = Map.empty\<rparr> = Inl (KeyError (PyStr ''mode'')) \<and>
   speed \<lparr>data = Map.empty\<rparr> = Inl (KeyError (PyStr ''fan_level'')) \<and>
   oscillate \<lparr>data = Map.empty\<rparr> = Inl (KeyError (PyStr ''swing_mode'')) \<and>
   delay_off_countdown \<lparr>data = Map.empty\<rparr> = Inl (KeyError (PyStr ''power_off_time'')) \<and>
   led \<lparr>data = Map.empty\<rparr> = Inl (KeyError (PyStr ''light'')) \<and>
   buzzer \<lparr>data = Map.empty\<rparr> = Inl (KeyError (PyStr ''buzzer'')) \<and>
   child_lock \<lparr>data = Map.empty\<rparr> = Inl (KeyError (PyStr ''child_lock'')) \<and>
   (PyStr ` fst ` set MAPPING \<subseteq> dom (data s) \<longrightarrow>
      (\<exists>v. power_prop s = Inr v) \<and> (\<exists>v. is_on s = Inr v) \<and> (\<exists>v. mode s = Inr v) \<and>
      (\<exists>v. speed s = Inr v) \<and> (\<exists>v. oscillate s = Inr v) \<and>
      (\<exists>v. delay_off_countdown s = Inr v) \<and> (\<exists>v. led s = Inr v) \<and>
      (\<exists>v. buzzer s = Inr v) \<and> (\<exists>v. child_lock s = Inr v)) \<and>
   set (calls (snd (on self))) \<subseteq>
     set (calls self) \<union> {SetProperty n v | n v. n \<in> fst ` set MAPPING} \<and>
   set (calls (snd (off self))) \<subseteq>
     set (calls self) \<union> {SetProperty n v | n v. n \<in> fst ` set MAPPING} \<and>
   set (calls (snd (set_direct_speed self level))) \<subseteq>
     set (calls self) \<union> {SetProperty n v | n v. n \<in> fst ` set MAPPING} \<and>
   set (calls (snd (set_oscillate self b))) \<subseteq>
     set (calls self) \<union> {SetProperty n v | n v. n \<in> fst ` set MAPPING} \<and>
   set (calls (snd (set_buzzer self b))) \<subseteq>
     set (calls self) \<union> {SetProperty n v | n v. n \<in> fst ` set MAPPING} \<and>
   set (calls (snd (set_child_lock self b))) \<subseteq>
     set (calls self) \<union> {SetProperty n v | n v. n \<in> fst ` set MAPPING} \<and>
   set (calls (snd (set_natural_mode self b))) \<subseteq>
     set (calls self) \<union> {SetProperty n v | n v. n \<in> fst ` set MAPPING} \<and>
   set (calls (snd (delay_off self seconds))) \<subseteq>
     set (calls self) \<union> {SetProperty n v | n v. n \<in> fst ` set MAPPING} \<and>
   calls (snd (status self)) = calls self @ [GetPropertiesForMapping] \<and>
   mapping (snd (status self)) = mapping self \<and>
   mapping (snd (on self)) = mapping self \<and>
   mapping (snd (off self)) = mapping self \<and>
   mapping (snd (set_direct_speed self level)) = mapping self \<and>
   mapping (snd (set_oscillate self b)) = mapping self \<and>
   mapping (snd (set_buzzer self b)) = mapping self \<and>
   mapping (snd (set_child_lock self b)) = mapping self \<and>
   mapping (snd (set_natural_mode self b)) = mapping self \<and>
   mapping (snd (delay_off self seconds)) = mapping self"
  by (intro conjI impI init_mapping mapping_distinct mapping_keys mapping_lookup
      accessors_on_empty setter_names status_kept mapping_kept)
    (use accessors_on_full in blast)+

lemma status_loop_example_dom:
  "\<exists>d. status_loop example_reply Map.empty = Inr d \<and> PyStr ` fst ` set MAPPING \<subseteq> dom d"
  by (simp add: example_reply_def reply_entry_def getitem_def setitem_def mapping_keys)

theorem mapping_covers_attribute_names_witness:
  "\<exists>s. status (demo_fan example_reply) =
      (Inr s, (demo_fan example_reply)\<lparr>link := 1, calls := [GetPropertiesForMapping]\<rparr>) \<and>
     PyStr ` fst ` set MAPPING \<subseteq> dom (data s) \<and>
     (\<exists>v. power_prop s = Inr v) \<and> (\<exists>v. is_on s = Inr v) \<and> (\<exists>v. mode s = Inr v) \<and>
     (\<exists>v. speed s = Inr v) \<and> (\<exists>v. oscillate s = Inr v) \<and>
     (\<exists>v. delay_off_countdown s = Inr v) \<and> (\<exists>v. led s = Inr v) \<and>
     (\<exists>v. buzzer s = Inr v) \<and> (\<exists>v. child_lock s = Inr v) \<and>
     mapping (demo_fan example_reply) = MAPPING"
proof -
  obtain d where d: "status_loop example_reply Map.empty = Inr d"
    and full: "PyStr ` fst ` set MAPPING \<subseteq> dom (data \<lparr>data = d\<rparr>)"
    using status_loop_example_dom by auto
  have st: "status (demo_fan example_reply) =
      (Inr \<lparr>data = d\<rparr>, (demo_fan example_reply)\<lparr>link := 1, calls := [GetPropertiesForMapping]\<rparr>)"
    using d by (simp add: status_def demo_get)
  note table = mapping_covers_attribute_names [of None None 0 0 True 0
      "\<lambda>l m. (Inr example_reply, Suc l)" "\<lambda>l m name v. (Inr (PyStr ''ok''), Suc l)"
      "\<lparr>data = d\<rparr>" "demo_fan example_reply" 2 True 60]
  have m: "mapping (demo_fan example_reply) = MAPPING"
    unfolding demo_fan_def using table by (rule conjunct1)
  show ?thesis
    using st full m table
    by (intro exI [of _ "\<lparr>data = d\<rparr>"]) simp
qed

section \<open>Accessors on an absent value\<close>

lemma status_loop_failed:
  "\<exists>d. status_loop failed_reply Map.empty = Inr d \<and>
     d (PyStr ''power'') = Some PyNone \<and> d (PyStr ''mode'') = Some PyNone"
  by (simp add: failed_reply_def reply_entry_def failed_entry_def getitem_def setitem_def)

text \<open>
  C10. On a snapshot in which \<^verbatim>\<open>power\<close> is recorded as \<^verbatim>\<open>None\<close>, the accessor
  \<^verbatim>\<open>power\<close> returns \<^verbatim>\<open>"off"\<close> and \<^verbatim>\<open>is_on\<close> returns \<^verbatim>\<open>None\<close>, which is
  falsy; on one in which \<^verbatim>\<open>mode\<close> is recorded as \<^verbatim>\<open>None\<close>, the accessor \<^verbatim>\<open>mode\<close>
  returns \<open>Normal\<close>. None of them raises.
\<close>

theorem absent_value_accessors:
  "(data s (PyStr ''power'') = Some PyNone \<longrightarrow>
      power_prop s = Inr ''off'' \<and> is_on s = Inr PyNone \<and> \<not> truthy PyNone) \<and>
   (data s (PyStr ''mode'') = Some PyNone \<longrightarrow> mode s = Inr Normal)"
  by (simp add: power_prop_def is_on_def mode_def getitem_def)

theorem absent_value_accessors_witness:
  "\<exists>s. status (demo_fan failed_reply) =
      (Inr s, (demo_fan failed_reply)\<lparr>link := 1, calls := [GetPropertiesForMapping]\<rparr>) \<and>
     data s (PyStr ''power'') = Some PyNone \<and> data s (PyStr ''mode'') = Some PyNone \<and>
     power_prop s = Inr ''off'' \<and> is_on s = Inr PyNone \<and> mode s = Inr Normal"
proof -
  obtain d where d: "status_loop failed_reply Map.empty = Inr d"
    and v: "data \<lparr>data = d\<rparr> (PyStr ''power'') = Some PyNone"
      "data \<lparr>data = d\<rparr> (PyStr ''mode'') = Some PyNone"
    using status_loop_failed by auto
  have st: "status (demo_fan failed_reply) =
      (Inr \<lparr>data = d\<rparr>, (demo_fan failed_reply)\<lparr>link := 1, calls := [GetPropertiesForMapping]\<rparr>)"
    using d by (simp add: status_def demo_get)
  show ?thesis
    using st v absent_value_accessors [of "\<lparr>data = d\<rparr>"]
    by (intro exI [of _ "\<lparr>data = d\<rparr>"]) simp
qed

end
